theory Spec2Isabelle
  imports Main "HOL-Library.Word"
begin

section \<open>Package listeners: the data model\<close>

text \<open>\<^verbatim>\<open>type ID string\<close>.\<close>

type_synonym ID = string

text \<open>\<^verbatim>\<open>type ContainerPort struct { Port int; Name string }\<close>. Go's \<^verbatim>\<open>int\<close> is a signed
  machine integer, 64 bits wide on the 64-bit platforms the agent is built for; it is
  read with \<open>sint\<close>.\<close>

record ContainerPort =
  Port :: "64 word"
  Name :: string

definition port_number :: "ContainerPort \<Rightarrow> int" where
  "port_number p = sint (Port p)"

text \<open>The range the specification gives for a port number.\<close>

definition port_in_range :: "ContainerPort \<Rightarrow> bool" where
  "port_in_range p = (0 \<le> port_number p \<and> port_number p \<le> 65535)"

text \<open>
  The \<^verbatim>\<open>Service\<close> interface: one field per method, with the method's result type.
  \<^verbatim>\<open>GetID() ID\<close> has a single result; each of the other six methods returns a value
  together with an \<^verbatim>\<open>error\<close>, which is \<^verbatim>\<open>nil\<close> (\<open>None\<close>) on success. The error type is
  Go's \<^verbatim>\<open>error\<close> interface and is left as the parameter \<open>'e\<close>.
\<close>

record 'e Service =
  GetID :: ID
  GetADIdentifiers :: "string list \<times> 'e option"
  GetHosts :: "(string \<rightharpoonup> string) \<times> 'e option"
  GetPorts :: "ContainerPort list \<times> 'e option"
  GetTags :: "string list \<times> 'e option"
  GetPid :: "64 word \<times> 'e option"
  GetHostname :: "string \<times> 'e option"

text \<open>
  The interface declaration itself, as data: the seven methods by name and, for
  each, the list of result types written after its (empty) parameter list, in the
  order of the source:
  \<^verbatim>\<open>GetID() ID\<close>,
  \<^verbatim>\<open>GetADIdentifiers() ([]string, error)\<close>,
  \<^verbatim>\<open>GetHosts() (map[string]string, error)\<close>,
  \<^verbatim>\<open>GetPorts() ([]ContainerPort, error)\<close>,
  \<^verbatim>\<open>GetTags() ([]string, error)\<close>,
  \<^verbatim>\<open>GetPid() (int, error)\<close>,
  \<^verbatim>\<open>GetHostname() (string, error)\<close>.
\<close>

datatype accessor =
  Call_GetID | Call_GetADIdentifiers | Call_GetHosts | Call_GetPorts
  | Call_GetTags | Call_GetPid | Call_GetHostname

datatype go_type =
  T_ID | T_string | T_int | T_error | T_ContainerPort
  | T_slice go_type | T_map go_type go_type

fun declared_results :: "accessor \<Rightarrow> go_type list" where
  "declared_results Call_GetID = [T_ID]"
| "declared_results Call_GetADIdentifiers = [T_slice T_string, T_error]"
| "declared_results Call_GetHosts = [T_map T_string T_string, T_error]"
| "declared_results Call_GetPorts = [T_slice T_ContainerPort, T_error]"
| "declared_results Call_GetTags = [T_slice T_string, T_error]"
| "declared_results Call_GetPid = [T_int, T_error]"
| "declared_results Call_GetHostname = [T_string, T_error]"


text \<open>
  What a caller receives from a call of a method on a \<^verbatim>\<open>Service\<close> value: the list of
  the values returned, each tagged with its Go type. It is read off the fields of the
  record, so it follows the types the fields have. A method of an implementation may
  also panic or not return; the interface says nothing of either, for any of the seven
  methods, and neither is modelled.
\<close>

datatype 'e go_value =
  V_ID ID
  | V_string string
  | V_int "64 word"
  | V_error "'e option"
  | V_strings "string list"
  | V_ports "ContainerPort list"
  | V_hosts "string \<rightharpoonup> string"

fun type_of_value :: "'e go_value \<Rightarrow> go_type" where
  "type_of_value (V_ID i) = T_ID"
| "type_of_value (V_string x) = T_string"
| "type_of_value (V_int n) = T_int"
| "type_of_value (V_error e) = T_error"
| "type_of_value (V_strings xs) = T_slice T_string"
| "type_of_value (V_ports ps) = T_slice T_ContainerPort"
| "type_of_value (V_hosts h) = T_map T_string T_string"

fun call :: "'e Service \<Rightarrow> accessor \<Rightarrow> 'e go_value list" where
  "call s Call_GetID = [V_ID (GetID s)]"
| "call s Call_GetADIdentifiers =
     [V_strings (fst (GetADIdentifiers s)), V_error (snd (GetADIdentifiers s))]"
| "call s Call_GetHosts = [V_hosts (fst (GetHosts s)), V_error (snd (GetHosts s))]"
| "call s Call_GetPorts = [V_ports (fst (GetPorts s)), V_error (snd (GetPorts s))]"
| "call s Call_GetTags = [V_strings (fst (GetTags s)), V_error (snd (GetTags s))]"
| "call s Call_GetPid = [V_int (fst (GetPid s)), V_error (snd (GetPid s))]"
| "call s Call_GetHostname = [V_string (fst (GetHostname s)), V_error (snd (GetHostname s))]"

section \<open>Package listeners: the listener factory registry\<close>

text \<open>
  The Go package keeps one package-level variable,
  \<^verbatim>\<open>var ServiceListenerFactories = make(map[string]ServiceListenerFactory)\<close>,
  and one function \<^verbatim>\<open>Register\<close> that writes to it and to the logger.

  A \<^verbatim>\<open>ServiceListenerFactory\<close> is a Go function value, which may be \<^verbatim>\<open>nil\<close>: it is
  modelled as \<open>'f option\<close> with \<open>None\<close> for \<^verbatim>\<open>nil\<close>. A Go map variable may itself be
  \<^verbatim>\<open>nil\<close> (reading a nil map yields the zero value, writing to it panics), so the
  variable is a \<open>(string \<rightharpoonup> 'f option) option\<close>; \<^verbatim>\<open>make\<close> yields \<open>Some Map.empty\<close>.
  The logger is a list of the entries written so far, oldest first.
\<close>

datatype level = Warn | Error

datatype panic = Assignment_to_entry_in_nil_map

record 'f package_state =
  ServiceListenerFactories :: "(string \<rightharpoonup> 'f option) option"
  logged :: "(level \<times> string) list"

definition initial_state :: "'f package_state" where
  "initial_state = \<lparr>ServiceListenerFactories = Some Map.empty, logged = []\<rparr>"

definition Warnf :: "string \<Rightarrow> 'f package_state \<Rightarrow> 'f package_state" where
  "Warnf msg s = s\<lparr>logged := logged s @ [(Warn, msg)]\<rparr>"

definition Errorf :: "string \<Rightarrow> 'f package_state \<Rightarrow> 'f package_state" where
  "Errorf msg s = s\<lparr>logged := logged s @ [(Error, msg)]\<rparr>"

text \<open>The two-result map read \<^verbatim>\<open>_, registered := ServiceListenerFactories[name]\<close>:
  true exactly when the map holds an entry under the key, whatever the stored value
  (a stored \<^verbatim>\<open>nil\<close> factory is an entry too); false on a nil map.\<close>

definition is_registered :: "string \<Rightarrow> 'f package_state \<Rightarrow> bool" where
  "is_registered name s =
     (case ServiceListenerFactories s of None \<Rightarrow> False | Some m \<Rightarrow> m name \<noteq> None)"

definition does_not_exist_msg :: "string \<Rightarrow> string" where
  "does_not_exist_msg name = ''Service listener factory '' @ name @ '' does not exist.''"

definition already_registered_msg :: "string \<Rightarrow> string" where
  "already_registered_msg name =
     ''Service listener factory '' @ name @ '' already registered. Ignoring.''"

text \<open>\<^verbatim>\<open>Register\<close>, statement by statement. Neither \<^verbatim>\<open>if\<close> returns, so the
  assignment on the last line always runs. The function has no result in Go; the
  model returns the updated package state, or the runtime panic.\<close>

definition Register :: "string \<Rightarrow> 'f option \<Rightarrow> 'f package_state \<Rightarrow> panic + 'f package_state" where
  "Register name factory s =
     (let s1 = (if factory = None then Warnf (does_not_exist_msg name) s else s);
          registered = is_registered name s1;
          s2 = (if registered then Errorf (already_registered_msg name) s1 else s1)
      in case ServiceListenerFactories s2 of
           None \<Rightarrow> Inl Assignment_to_entry_in_nil_map
         | Some m \<Rightarrow> Inr (s2\<lparr>ServiceListenerFactories := Some (m(name \<mapsto> factory))\<rparr>))"

text \<open>A sequence of \<^verbatim>\<open>Register\<close> calls, as made by the backends' \<^verbatim>\<open>init\<close> functions.\<close>

fun Register_all :: "(string \<times> 'f option) list \<Rightarrow> 'f package_state \<Rightarrow> panic + 'f package_state" where
  "Register_all [] s = Inr s"
| "Register_all ((name, factory) # calls) s =
     (case Register name factory s of
        Inl p \<Rightarrow> Inl p
      | Inr s' \<Rightarrow> Register_all calls s')"

section \<open>Package gui: the humanizers\<close>

text \<open>\<^verbatim>\<open>fmt.Sprintf("%d", i)\<close> for an \<^verbatim>\<open>int64\<close>: the decimal digits of the signed value,
  with a leading minus sign when it is negative.\<close>

definition digit_char :: "nat \<Rightarrow> char" where
  "digit_char d = ''0123456789'' ! (d mod 10)"

fun decimal :: "nat \<Rightarrow> string" where
  "decimal n = (if n < 10 then [digit_char n] else decimal (n div 10) @ [digit_char (n mod 10)])"

declare decimal.simps [simp del]

definition Sprintf_d :: "64 word \<Rightarrow> string" where
  "Sprintf_d i =
     (if sint i < 0 then CHR ''-'' # decimal (nat (- sint i)) else decimal (nat (sint i)))"

text \<open>\<^verbatim>\<open>mkHumanInt\<close>: the comparisons are on signed 64-bit values.\<close>

definition mkHumanInt :: "64 word \<Rightarrow> string" where
  "mkHumanInt i =
     (let str = Sprintf_d i
      in if 1000000 <s i then ''over 1M''
         else if 100000 <s i then ''over 100K''
         else str)"

text \<open>\<^verbatim>\<open>mkHuman\<close> starts with the conversion \<^verbatim>\<open>i := int64(f)\<close>. The conversion of a
  \<^verbatim>\<open>float64\<close> is the Go compiler's, not this package's: it is the parameter \<open>int64\<close>,
  over any representation \<open>'float64\<close> of the floating-point values.\<close>

definition mkHuman :: "('float64 \<Rightarrow> 64 word) \<Rightarrow> 'float64 \<Rightarrow> string" where
  "mkHuman int64 f =
     (let i = int64 f;
          str = Sprintf_d i
      in if 1000000 <s i then ''over 1M''
         else if 100000 <s i then ''over 100K''
         else str)"

section \<open>Package gui: rendering the status page\<close>

text \<open>
  \<^verbatim>\<open>renderStatus\<close> and \<^verbatim>\<open>fillTemplate\<close> call three functions of Go's standard library,
  taken as parameters:
    \<^item> \<^verbatim>\<open>json.Unmarshal(data, &stats)\<close>: from the bytes and the map passed in, the map
      as the decoder leaves it and the decoder's error;
    \<^item> \<^verbatim>\<open>t.ParseFiles(path)\<close> on the template made by \<^verbatim>\<open>template.New(name)\<close> and
      \<^verbatim>\<open>t.Funcs(fmap)\<close>: from the template name and the path, an error or the parsed
      template (the template files on disk are part of this parameter);
    \<^item> \<^verbatim>\<open>t.Execute(w, stats)\<close>: from the template, the data and the writer's contents,
      the writer's contents afterwards and the error.
  \<open>'v\<close> stands for the decoded JSON values (\<^verbatim>\<open>interface{}\<close>).
\<close>

record ('v, 't, 'e) library =
  json_Unmarshal :: "8 word list \<Rightarrow> (string \<rightharpoonup> 'v) \<Rightarrow> (string \<rightharpoonup> 'v) \<times> 'e option"
  ParseFiles :: "string \<Rightarrow> string \<Rightarrow> 'e + 't"
  Execute :: "'t \<Rightarrow> (string \<rightharpoonup> 'v) \<Rightarrow> string \<Rightarrow> string \<times> 'e option"

text \<open>\<^verbatim>\<open>fillTemplate(w, stats, request)\<close> returns the writer's contents afterwards and
  the error.\<close>

definition fillTemplate ::
  "('v, 't, 'e) library \<Rightarrow> string \<Rightarrow> (string \<rightharpoonup> 'v) \<Rightarrow> string \<Rightarrow> string \<times> 'e option" where
  "fillTemplate lib w stats request =
     (case ParseFiles lib (request @ ''.tmpl'') (''templates/'' @ request @ ''.tmpl'') of
        Inl e \<Rightarrow> (w, Some e)
      | Inr t \<Rightarrow> Execute lib t stats w)"

text \<open>\<^verbatim>\<open>renderStatus(data, request)\<close>: the error of \<^verbatim>\<open>json.Unmarshal\<close> is not bound to
  any variable.\<close>

definition renderStatus ::
  "('v, 't, 'e) library \<Rightarrow> 8 word list \<Rightarrow> string \<Rightarrow> string \<times> 'e option" where
  "renderStatus lib data request =
     (let b = [];
          stats = Map.empty;
          stats = fst (json_Unmarshal lib data stats);
          (b, e) = fillTemplate lib b stats (request @ ''Status'')
      in if e \<noteq> None then ([], e) else (b, None))"

section \<open>Properties of the registry\<close>

subsection \<open>What one call does\<close>

lemma Register_on_map:
  "Register name factory \<lparr>ServiceListenerFactories = Some m, logged = l\<rparr> =
     Inr \<lparr>ServiceListenerFactories = Some (m(name \<mapsto> factory)),
          logged = l @ (if factory = None then [(Warn, does_not_exist_msg name)] else [])
                     @ (if m name \<noteq> None then [(Error, already_registered_msg name)] else [])\<rparr>"
  by (simp add: Register_def Let_def Warnf_def Errorf_def is_registered_def)

lemma Register_all_on_map:
  "\<exists>m' l'. Register_all calls \<lparr>ServiceListenerFactories = Some m, logged = l\<rparr> =
     Inr \<lparr>ServiceListenerFactories = Some m', logged = l'\<rparr>"
proof (induction calls arbitrary: m l)
  case Nil
  show ?case by simp
next
  case (Cons c calls)
  obtain name factory where c: "c = (name, factory)" by (cases c)
  show ?case unfolding c Register_all.simps Register_on_map sum.case by (rule Cons.IH)
qed

lemma Register_on_nil_map:
  "Register name factory \<lparr>ServiceListenerFactories = None, logged = l\<rparr> =
     Inl Assignment_to_entry_in_nil_map"
  by (simp add: Register_def Let_def Warnf_def Errorf_def is_registered_def)

text \<open>
  C2. For every name and every two non-nil factories \<open>f1\<close>, \<open>f2\<close>: \<^verbatim>\<open>Register(name, f1)\<close>
  followed by \<^verbatim>\<open>Register(name, f2)\<close> leaves the registry mapping the name to \<open>f2\<close>.
  Both calls return normally; the conflict shows only as the entry the second call
  appends to the log.
\<close>

theorem Register_twice_overwrites:
  "\<exists>s1. Register name (Some f1) \<lparr>ServiceListenerFactories = Some m, logged = l\<rparr> = Inr s1 \<and>
     Register name (Some f2) s1 =
       Inr \<lparr>ServiceListenerFactories = Some (m(name \<mapsto> Some f2)),
            logged = logged s1 @ [(Error, already_registered_msg name)]\<rparr>"
  by (simp add: Register_on_map)

text \<open>
  C7. \<^verbatim>\<open>Register\<close> returns for every name and every factory, \<^verbatim>\<open>nil\<close> included, and
  yields nothing but the updated package state: a nil factory and a name already
  present show only as entries appended to the log. The registry variable holds a map
  when the package is initialised and after every call, so every sequence of calls
  made from the initial state returns as well.
\<close>

theorem Register_total:
  "(\<exists>m'. Register name factory \<lparr>ServiceListenerFactories = Some m, logged = l\<rparr> =
       Inr \<lparr>ServiceListenerFactories = Some m',
            logged = l @ (if factory = None then [(Warn, does_not_exist_msg name)] else [])
                       @ (if m name \<noteq> None then [(Error, already_registered_msg name)] else [])\<rparr>)
   \<and> (\<exists>m' l'. Register_all calls initial_state =
         Inr \<lparr>ServiceListenerFactories = Some m', logged = l'\<rparr>)"
  unfolding initial_state_def using Register_all_on_map [of calls Map.empty "[]"]
  by (simp add: Register_on_map)

text \<open>
  C1. The specification has \<^verbatim>\<open>Register(name, nil)\<close> leave the registry as it was. The
  code logs the warning and goes on to the assignment: on the freshly initialised
  package, \<^verbatim>\<open>Register("docker", nil)\<close> returns with the key \<^verbatim>\<open>"docker"\<close> present in the
  map (holding \<^verbatim>\<open>nil\<close>), where it was absent before the call.
\<close>

theorem Register_nil_factory_adds_entry:
  "\<not> is_registered ''docker'' (initial_state :: 'f package_state) \<and>
   Register ''docker'' None (initial_state :: 'f package_state) =
     Inr \<lparr>ServiceListenerFactories = Some [''docker'' \<mapsto> None],
          logged = [(Warn, ''Service listener factory docker does not exist.'')]\<rparr> \<and>
   is_registered ''docker''
     \<lparr>ServiceListenerFactories = Some [''docker'' \<mapsto> (None :: 'f option)],
      logged = [(Warn, ''Service listener factory docker does not exist.'')]\<rparr>"
  by (simp add: initial_state_def Register_on_map is_registered_def does_not_exist_msg_def)

section \<open>Properties of the data model\<close>

text \<open>
  C6, as the specification states it: every \<^verbatim>\<open>ContainerPort\<close> has its port number
  between 0 and 65535. The struct literal \<^verbatim>\<open>ContainerPort{Port: 70000, Name: "http"}\<close>
  is a value of the type and is outside that range.
\<close>

theorem ContainerPort_out_of_range:
  "\<not> port_in_range \<lparr>Port = 70000, Name = ''http''\<rparr>"
  by (simp add: port_in_range_def port_number_def)

lemma ContainerPort_negative:
  "\<not> port_in_range \<lparr>Port = -1, Name = []\<rparr>"
  by (simp add: port_in_range_def port_number_def)

text \<open>
  C6, amended: the port number of a \<^verbatim>\<open>ContainerPort\<close> is a Go \<^verbatim>\<open>int\<close>, between
  \<open>-2\<^sup>6\<^sup>3\<close> and \<open>2\<^sup>6\<^sup>3 - 1\<close>, and every integer of that range is the port number of
  some \<^verbatim>\<open>ContainerPort\<close>: the struct stores the integer it is given, reduced to 64 bits.
\<close>

theorem ContainerPort_Port_is_int:
  "- (2 ^ 63) \<le> port_number p \<and> port_number p < 2 ^ 63 \<and>
   port_number \<lparr>Port = word_of_int n, Name = s\<rparr> = signed_take_bit 63 n"
  using sint_ge [of "Port p"] sint_lt [of "Port p"]
  by (simp add: port_number_def sint_sbintrunc')

text \<open>A call on any \<^verbatim>\<open>Service\<close> value returns values of exactly the types the
  interface declares for the method.\<close>

lemma call_conforms:
  "map type_of_value (call s a) = declared_results a"
  by (cases a) simp_all

lemma an_accessor_reporting_an_error:
  "call \<lparr>GetID = ''svc-1'', GetADIdentifiers = ([], None), GetHosts = (Map.empty, None),
         GetPorts = ([], None), GetTags = ([], None), GetPid = (0, Some e),
         GetHostname = ([], None)\<rparr> Call_GetPid = [V_int 0, V_error (Some e)]"
  by simp


section \<open>Properties of the humanizers\<close>

lemma mkHumanInt_examples:
  "mkHumanInt 42 = ''42''"
  "mkHumanInt 0 = ''0''"
  "mkHumanInt (-5) = ''-5''"
  "mkHumanInt 100000 = ''100000''"
  "mkHumanInt 100001 = ''over 100K''"
  "mkHumanInt 1000000 = ''over 100K''"
  "mkHumanInt 1000001 = ''over 1M''"
  by (simp_all add: mkHumanInt_def Sprintf_d_def decimal.simps digit_char_def word_sless_alt)

text \<open>
  C9. Whatever \<^verbatim>\<open>int64\<close> the conversion yields for a \<^verbatim>\<open>float64 f\<close>, \<^verbatim>\<open>mkHuman(f)\<close> is
  the string \<^verbatim>\<open>mkHumanInt(int64(f))\<close>.
\<close>

theorem mkHuman_is_mkHumanInt_of_int64:
  "mkHuman int64 f = mkHumanInt (int64 f)"
  by (simp add: mkHuman_def mkHumanInt_def)

section \<open>Properties of the status renderer\<close>

text \<open>
  C10. The error \<^verbatim>\<open>renderStatus\<close> returns is the error of \<^verbatim>\<open>fillTemplate\<close>, run on an
  empty buffer, the map \<^verbatim>\<open>json.Unmarshal\<close> left and the request name followed by
  \<^verbatim>\<open>Status\<close>; so it fails exactly when \<^verbatim>\<open>fillTemplate\<close> fails. The decoder's own error
  has no influence: replacing it by any other leaves the result unchanged.
\<close>

theorem renderStatus_error_is_fillTemplate_error:
  "snd (renderStatus lib data request) =
     snd (fillTemplate lib [] (fst (json_Unmarshal lib data Map.empty)) (request @ ''Status''))
   \<and> renderStatus (lib\<lparr>json_Unmarshal := \<lambda>d m. (fst (json_Unmarshal lib d m), err d m)\<rparr>)
        data request =
     renderStatus lib data request"
  by (simp add: renderStatus_def Let_def fillTemplate_def split: prod.splits sum.splits)

end
